theory Spec2Isabelle
  imports Complex_Main
begin

section \<open>RadioObs: telescope sensitivity and source visibility\<close>

text \<open>
  A shallow embedding of \<^verbatim>\<open>src/main.py\<close>. Python floats are read as real numbers
  (\<^typ>\<open>real\<close>): the formulas are the ones of the source, with the same grouping of
  the operators, and rounding, overflow and the special values of IEEE arithmetic are
  outside the model. Every exception that the modelled statements can raise is a value
  of \<open>py_error\<close>.
\<close>

subsection \<open>Errors\<close>

datatype py_error = ValueError | ZeroDivisionError | EOFError | PortError string

subsection \<open>Constants of the libraries\<close>

text \<open>
  Modelled from the spec: \<^verbatim>\<open>scipy.constants\<close> is a library outside the repository.
  \<^verbatim>\<open>const.k\<close> is Boltzmann's constant, 1.380649e-23 J/K, and \<^verbatim>\<open>const.pi\<close> is
  the circle constant.
\<close>

definition const_k :: real where
  "const_k = 1.380649 / 10 ^ 23"

definition const_pi :: real where
  "const_pi = pi"

subsection \<open>Class Telescope\<close>

text \<open>
  \<^verbatim>\<open>astropy.coordinates.EarthLocation\<close> and \<^verbatim>\<open>SkyCoord\<close> objects are opaque to
  the program: it only hands them to the library. They are kept as the pair of strings
  they are built from.
\<close>

type_synonym EarthLocation = "string \<times> string"
type_synonym SkyCoord = "string \<times> string"

record Telescope =
  name :: string
  location :: EarthLocation
  diameter :: real
  frequency :: real
  bandwidth :: real
  aperture_efficiency :: real
  system_temperature :: real

text \<open>
  \<^verbatim>\<open>Telescope.__init__\<close> stores its seven arguments and has no other statement. The
  result type has an error side so that a refusal to construct could be expressed; the
  source has no \<^verbatim>\<open>raise\<close>, hence no branch that returns \<open>Inl\<close>.
\<close>

definition Telescope_init ::
  "string \<Rightarrow> EarthLocation \<Rightarrow> real \<Rightarrow> real \<Rightarrow> real \<Rightarrow> real \<Rightarrow> real \<Rightarrow> py_error + Telescope" where
  "Telescope_init t_name t_location t_diameter t_frequency t_bandwidth
       t_aperture_efficiency t_system_temperature =
     Inr \<lparr> name = t_name, location = t_location, diameter = t_diameter,
           frequency = t_frequency, bandwidth = t_bandwidth,
           aperture_efficiency = t_aperture_efficiency,
           system_temperature = t_system_temperature \<rparr>"

text \<open>\<^verbatim>\<open>effective_area = self.aperture_efficiency * const.pi * (self.diameter/2)**2\<close>\<close>

definition effective_area :: "Telescope \<Rightarrow> real" where
  "effective_area self = aperture_efficiency self * const_pi * (diameter self / 2) ^ 2"

text \<open>
  \<^verbatim>\<open>gain = self.effective_area()/(2*const.k)\<close>, then \<^verbatim>\<open>gain *= 10**(-26)\<close>. The
  divisor is a non-zero constant, so the division cannot raise; \<^verbatim>\<open>gain\<close> is a local
  variable, no attribute of \<^verbatim>\<open>self\<close> is assigned.
\<close>

definition gain :: "Telescope \<Rightarrow> real" where
  "gain self = (let gain = effective_area self / (2 * const_k)
                in gain * 10 powi (- 26))"

subsection \<open>Class Source\<close>

record Source =
  s_name :: string
  s_location :: SkyCoord
  flux_density :: real

definition Source_init :: "string \<Rightarrow> SkyCoord \<Rightarrow> real \<Rightarrow> py_error + Source" where
  "Source_init sname slocation sflux_density =
     Inr \<lparr> s_name = sname, s_location = slocation, flux_density = sflux_density \<rparr>"

text \<open>
  \<^verbatim>\<open>print_integration_time\<close> computes
  \<^verbatim>\<open>SNR**2 * (telescope.system_temperature**2) / ((telescope.gain() * (self.flux_density))**2 * 2 * telescope.bandwidth*10**(6))\<close>
  and prints it. The model returns the value of the local \<^verbatim>\<open>integration_time\<close>
  that the \<^verbatim>\<open>print\<close> call formats; Python's division raises
  \<^verbatim>\<open>ZeroDivisionError\<close> when the divisor is zero.
\<close>

definition print_integration_time :: "Source \<Rightarrow> Telescope \<Rightarrow> real \<Rightarrow> py_error + real" where
  "print_integration_time self telescope SNR =
     (let divisor = (gain telescope * flux_density self) ^ 2 * 2 * bandwidth telescope * 10 ^ 6
      in if divisor = 0 then Inl ZeroDivisionError
         else Inr (SNR ^ 2 * system_temperature telescope ^ 2 / divisor))"

subsection \<open>Time stamps and the library's parsers\<close>

text \<open>
  An \<^verbatim>\<open>astropy.time.Time\<close> is kept as a number of seconds on the UTC scale and a
  \<^verbatim>\<open>TimeDelta\<close> as a number of seconds; adding a \<^verbatim>\<open>TimeDelta\<close> is addition.
  The library's constructor \<^verbatim>\<open>astrotime.Time(text)\<close>, Python's \<^verbatim>\<open>float(text)\<close>
  and the coordinate transformation \<^verbatim>\<open>transform_to(AltAz(...)).alt.deg\<close> are not
  code of the repository: the functions below take them as the parameters
  \<open>Time_of\<close>, \<open>float_of\<close> and \<open>altitude_at\<close>, each returning an exception as \<open>Inl\<close>.
\<close>

type_synonym Time = int

type_synonym time_parser = "string \<Rightarrow> py_error + Time"
type_synonym float_parser = "string \<Rightarrow> py_error + real"
type_synonym transform_port = "EarthLocation \<Rightarrow> Time \<Rightarrow> SkyCoord \<Rightarrow> py_error + real"

definition digit_of :: "char \<Rightarrow> nat option" where
  "digit_of c = (let n = (of_char c :: nat)
                 in if 48 \<le> n \<and> n \<le> 57 then Some (n - 48) else None)"

fun digits_value :: "nat \<Rightarrow> string \<Rightarrow> nat option" where
  "digits_value acc [] = Some acc"
| "digits_value acc (c # cs) =
     (case digit_of c of None \<Rightarrow> None | Some d \<Rightarrow> digits_value (10 * acc + d) cs)"

definition number_of :: "string \<Rightarrow> nat option" where
  "number_of cs = (if cs = [] then None else digits_value 0 cs)"

definition is_leap :: "nat \<Rightarrow> bool" where
  "is_leap y \<longleftrightarrow> (y mod 4 = 0 \<and> y mod 100 \<noteq> 0) \<or> y mod 400 = 0"

definition days_in_month :: "nat \<Rightarrow> nat \<Rightarrow> nat" where
  "days_in_month y m =
     (if m = 2 then (if is_leap y then 29 else 28)
      else if m = 4 \<or> m = 6 \<or> m = 9 \<or> m = 11 then 30 else 31)"

definition days_before_year :: "nat \<Rightarrow> nat" where
  "days_before_year y = 365 * (y - 1) + (y - 1) div 4 - (y - 1) div 100 + (y - 1) div 400"

definition days_before_month :: "nat \<Rightarrow> nat \<Rightarrow> nat" where
  "days_before_month y m = sum_list (map (days_in_month y) [1 ..< m])"

text \<open>
  Modelled from the spec: \<^verbatim>\<open>astropy.time.Time\<close> belongs to a library outside the
  repository. \<open>Time_iso\<close> is a concrete parser for texts of the form
  \<^verbatim>\<open>YYYY-MM-DD HH:MM:SS\<close> that accepts exactly the valid civil calendar dates with a
  time of day, and raises \<^verbatim>\<open>ValueError\<close> otherwise. It gives the theorems on
  \<open>plot_altitude\<close> and \<open>main\<close>, which hold for every parser, an instance to be
  evaluated at.
\<close>

definition Time_iso :: time_parser where
  "Time_iso s =
     (if length s = 19 \<and> s ! 4 = CHR ''-'' \<and> s ! 7 = CHR ''-'' \<and> s ! 10 = CHR '' '' \<and>
         s ! 13 = CHR '':'' \<and> s ! 16 = CHR '':''
      then
        (case (number_of (take 4 s), number_of (take 2 (drop 5 s)),
               number_of (take 2 (drop 8 s)), number_of (take 2 (drop 11 s)),
               number_of (take 2 (drop 14 s)), number_of (take 2 (drop 17 s))) of
           (Some y, Some m, Some d, Some hh, Some mm, Some ss) \<Rightarrow>
             if 1 \<le> y \<and> 1 \<le> m \<and> m \<le> 12 \<and> 1 \<le> d \<and> d \<le> days_in_month y m \<and>
                hh < 24 \<and> mm < 60 \<and> ss < 60
             then Inr (int (days_before_year y + days_before_month y m + d) * 86400 +
                       int (hh * 3600 + mm * 60 + ss))
             else Inl ValueError
         | _ \<Rightarrow> Inl ValueError)
      else Inl ValueError)"

text \<open>
  Modelled from the spec: \<^verbatim>\<open>float\<close> is a builtin of Python. \<open>float_decimal\<close> is a
  concrete parser for plain decimal literals (an optional sign, digits, an optional
  point and digits, at least one digit); every other text raises \<^verbatim>\<open>ValueError\<close>.
  The builtin accepts more forms (exponents, blanks around the number, underscores,
  \<^verbatim>\<open>inf\<close>, \<^verbatim>\<open>nan\<close>); the theorems hold for every parser and use this one only as
  an instance to be evaluated at.
\<close>

definition float_decimal :: float_parser where
  "float_decimal s =
     (let (sgn, body) = (case s of
                           c # r \<Rightarrow> if c = CHR ''-'' then (- 1, r)
                                    else if c = CHR ''+'' then (1, r) else (1, s)
                         | [] \<Rightarrow> (1 :: real, s));
          ip = takeWhile (\<lambda>c. c \<noteq> CHR ''.'') body;
          fp = drop 1 (dropWhile (\<lambda>c. c \<noteq> CHR ''.'') body)
      in if ip = [] \<and> fp = [] then Inl ValueError
         else (case (digits_value 0 ip, digits_value 0 fp) of
                 (Some i, Some f) \<Rightarrow> Inr (sgn * (real i + real f / 10 ^ length fp))
               | _ \<Rightarrow> Inl ValueError))"

subsection \<open>Source.plot_altitude\<close>

text \<open>\<^verbatim>\<open>dt = 30*60\<close>, in seconds.\<close>

definition dt :: int where
  "dt = 30 * 60"

text \<open>\<^verbatim>\<open>np.arange(start, stop)\<close> on integers: \<^verbatim>\<open>start, start+1, ..., stop-1\<close>.\<close>

definition arange :: "int \<Rightarrow> int \<Rightarrow> int list" where
  "arange start stop = map (\<lambda>i. start + int i) [0 ..< nat (stop - start)]"

text \<open>
  The loop \<^verbatim>\<open>for observation_time in observation_times\<close>: one call of the
  transformation for each time, its result appended to \<^verbatim>\<open>altitudes\<close>. The last
  argument is the log of the times at which the transformation has been called; an
  exception of the transformation ends the loop.
\<close>

fun altitude_loop ::
  "transform_port \<Rightarrow> EarthLocation \<Rightarrow> SkyCoord \<Rightarrow> Time list \<Rightarrow> real list \<Rightarrow> Time list
     \<Rightarrow> Time list \<times> (py_error + real list)" where
  "altitude_loop altitude_at loc pos [] altitudes calls = (calls, Inr altitudes)"
| "altitude_loop altitude_at loc pos (observation_time # rest) altitudes calls =
     (case altitude_at loc observation_time pos of
        Inl e \<Rightarrow> (calls @ [observation_time], Inl e)
      | Inr alt \<Rightarrow>
          altitude_loop altitude_at loc pos rest (altitudes @ [alt])
            (calls @ [observation_time]))"

text \<open>
  \<^verbatim>\<open>plot_altitude\<close> builds
  \<^verbatim>\<open>Time(date + ' ' + '00:00:00', location=...) + dt_astropy * np.arange(0,86400//dt)\<close>,
  runs the loop and hands the times and the altitudes to the plotting library. The
  model returns the log of the calls of the transformation and either the exception
  raised or the sequence of points given to \<^verbatim>\<open>ax.plot_date\<close>; the drawing itself is
  not modelled.
\<close>

definition plot_altitude ::
  "time_parser \<Rightarrow> transform_port \<Rightarrow> Source \<Rightarrow> Telescope \<Rightarrow> string
     \<Rightarrow> Time list \<times> (py_error + (Time \<times> real) list)" where
  "plot_altitude Time_of altitude_at self telescope date =
     (case Time_of (date @ '' '' @ ''00:00:00'') of
        Inl e \<Rightarrow> ([], Inl e)
      | Inr t0 \<Rightarrow>
          (let observation_times = map (\<lambda>k. t0 + dt * k) (arange 0 (86400 div dt))
           in case altitude_loop altitude_at (location telescope) (s_location self)
                     observation_times [] [] of
                (calls, Inl e) \<Rightarrow> (calls, Inl e)
              | (calls, Inr altitudes) \<Rightarrow> (calls, Inr (zip observation_times altitudes))))"

subsection \<open>The configuration at the head of the script\<close>

definition T_name :: string where "T_name = ''42-ft telescope''"
definition T_latitude :: string where "T_latitude = ''53d 14m 10.5s''"
definition T_longitude :: string where "T_longitude = ''2d 18m 25.7s''"
definition T_diameter :: real where "T_diameter = 12.8"
definition T_frequency :: real where "T_frequency = 610"
definition T_bandwidth :: real where "T_bandwidth = 10"
definition T_aperture_efficiency :: real where "T_aperture_efficiency = 0.55"
definition T_system_temperature :: real where "T_system_temperature = 130"

definition S_name :: string where "S_name = ''B0833-45''"
definition S_RA :: string where "S_RA = ''08:35:20.6''"
definition S_Dec :: string where "S_Dec = ''-45:10:34.8''"
definition S_flux_density :: real where "S_flux_density = 1100.00 / 1000"

text \<open>The two objects that \<^verbatim>\<open>main\<close> builds from the configuration.\<close>

definition Tel :: Telescope where
  "Tel = \<lparr> name = T_name, location = (T_latitude, T_longitude), diameter = T_diameter,
           frequency = T_frequency, bandwidth = T_bandwidth,
           aperture_efficiency = T_aperture_efficiency,
           system_temperature = T_system_temperature \<rparr>"

definition Src :: Source where
  "Src = \<lparr> s_name = S_name, s_location = (S_RA, S_Dec), flux_density = S_flux_density \<rparr>"

subsection \<open>main\<close>

text \<open>
  What a run of \<^verbatim>\<open>main\<close> shows: a line printed by \<^verbatim>\<open>print\<close>, the line of
  \<^verbatim>\<open>print_integration_time\<close> with the two numbers it formats, or a plot.
\<close>

datatype event = Print string | PrintTime real real | PlotDate "(Time \<times> real) list"

record run =
  calls :: "Time list"
  shown :: "event list"
  raised :: "py_error option"

text \<open>\<^verbatim>\<open>str.lower\<close> on ASCII text.\<close>

definition lower :: "string \<Rightarrow> string" where
  "lower s = map (\<lambda>c. let n = (of_char c :: nat)
                       in if 65 \<le> n \<and> n \<le> 90 then char_of (n + 32) else c) s"

text \<open>
  The second half of \<^verbatim>\<open>main\<close>, from \<^verbatim>\<open>dotime = input(...)\<close>. The list is what is
  left of the standard input, one line per element; \<^verbatim>\<open>input\<close> raises
  \<^verbatim>\<open>EOFError\<close> when it is empty. The \<^verbatim>\<open>try\<close> block holds the conversion and the
  computation, and only \<^verbatim>\<open>ValueError\<close> is caught.
\<close>

definition main_time :: "float_parser \<Rightarrow> string list \<Rightarrow> event list \<times> py_error option" where
  "main_time float_of stdin =
     (case stdin of
        [] \<Rightarrow> ([], Some EOFError)
      | dotime # stdin1 \<Rightarrow>
          if lower dotime \<in> set [''y'', ''yes''] then
            (case stdin1 of
               [] \<Rightarrow> ([], Some EOFError)
             | SNR # _ \<Rightarrow>
                 (case (case float_of SNR of
                          Inl e \<Rightarrow> Inl e
                        | Inr SNR' \<Rightarrow>
                            (case print_integration_time Src Tel SNR' of
                               Inl e \<Rightarrow> Inl e
                             | Inr integration_time \<Rightarrow> Inr (PrintTime SNR' integration_time))) of
                    Inl e \<Rightarrow>
                      if e = ValueError
                      then ([Print ''Not a valid signal-to-noise ratio!''], None)
                      else ([], Some e)
                  | Inr line \<Rightarrow> ([line], None)))
          else ([], None))"

text \<open>
  \<^verbatim>\<open>main\<close> after the two objects have been built and described (the output of
  \<^verbatim>\<open>print_data\<close> and the prompts of \<^verbatim>\<open>input\<close> are left out). In the first
  \<^verbatim>\<open>try\<close> block the date is parsed once by \<^verbatim>\<open>main\<close> and then
  \<^verbatim>\<open>plot_altitude\<close> runs; a \<^verbatim>\<open>ValueError\<close> of either prints the message and
  returns.
\<close>

definition main :: "time_parser \<Rightarrow> float_parser \<Rightarrow> transform_port \<Rightarrow> string list \<Rightarrow> run" where
  "main Time_of float_of altitude_at stdin =
     (case stdin of
        [] \<Rightarrow> \<lparr> calls = [], shown = [], raised = Some EOFError \<rparr>
      | doplot # stdin1 \<Rightarrow>
          if lower doplot \<in> set [''y'', ''yes''] then
            (case stdin1 of
               [] \<Rightarrow> \<lparr> calls = [], shown = [], raised = Some EOFError \<rparr>
             | date # stdin2 \<Rightarrow>
                 (case (case Time_of (date @ '' '' @ ''00:00:00'') of
                          Inl e \<Rightarrow> ([], Inl e)
                        | Inr _ \<Rightarrow> plot_altitude Time_of altitude_at Src Tel date) of
                    (cs, Inl e) \<Rightarrow>
                      if e = ValueError
                      then \<lparr> calls = cs, shown = [Print ''Incorrect format for date!''],
                             raised = None \<rparr>
                      else \<lparr> calls = cs, shown = [], raised = Some e \<rparr>
                  | (cs, Inr profile) \<Rightarrow>
                      (let (out, exc) = main_time float_of stdin2
                       in \<lparr> calls = cs, shown = PlotDate profile # out, raised = exc \<rparr>)))
          else
            (let (out, exc) = main_time float_of stdin1
             in \<lparr> calls = [], shown = out, raised = exc \<rparr>))"

subsection \<open>The invariants of the data model\<close>



section \<open>Properties\<close>

subsection \<open>Helper facts\<close>








subsection \<open>Telescope.effective_area\<close>



subsection \<open>Telescope.gain\<close>



subsection \<open>Source.print_integration_time\<close>




lemma gain_system_temperature_update [simp]:
  "gain (telescope\<lparr>system_temperature := x\<rparr>) = gain telescope"
  by (simp add: gain_def effective_area_def)

lemma gain_bandwidth_update [simp]:
  "gain (telescope\<lparr>bandwidth := x\<rparr>) = gain telescope"
  by (simp add: gain_def effective_area_def)















lemma lower_y: "lower ''y'' \<in> set [''y'', ''yes'']"
  by code_simp





subsection \<open>The signal-to-noise ratio read by main\<close>





subsection \<open>Scaling\<close>




subsection \<open>Negative and zero SNR\<close>






subsection \<open>Construction\<close>

text \<open>
  Claim C3 says that construction fails when an invariant is violated. It does not:
  \<open>diameter = 0\<close>, \<open>aperture_efficiency = 1.5\<close>, \<open>system_temperature = -5\<close> and
  \<open>flux_density = 0\<close> each produce an object.
\<close>

theorem construction_unchecked_counterexample:
  "Telescope_init T_name (T_latitude, T_longitude) 0 610 10 0.55 130 =
     Inr \<lparr> name = T_name, location = (T_latitude, T_longitude), diameter = 0,
           frequency = 610, bandwidth = 10, aperture_efficiency = 0.55,
           system_temperature = 130 \<rparr> \<and>
   Telescope_init T_name (T_latitude, T_longitude) 12.8 610 10 1.5 130 =
     Inr \<lparr> name = T_name, location = (T_latitude, T_longitude), diameter = 12.8,
           frequency = 610, bandwidth = 10, aperture_efficiency = 1.5,
           system_temperature = 130 \<rparr> \<and>
   Telescope_init T_name (T_latitude, T_longitude) 12.8 610 10 0.55 (- 5) =
     Inr \<lparr> name = T_name, location = (T_latitude, T_longitude), diameter = 12.8,
           frequency = 610, bandwidth = 10, aperture_efficiency = 0.55,
           system_temperature = - 5 \<rparr> \<and>
   Source_init S_name (S_RA, S_Dec) 0 =
     Inr \<lparr> s_name = S_name, s_location = (S_RA, S_Dec), flux_density = 0 \<rparr>"
  by (simp only: Telescope_init_def Source_init_def)

text \<open>
  Claim C3, amended: constructing a Telescope or a Source never fails; for all
  arguments it produces the object whose fields are the arguments, unchanged and
  unchecked.
\<close>

theorem construction_stores_arguments:
  "(\<exists>t. Telescope_init n l d f b a ts = Inr t \<and> name t = n \<and> location t = l \<and>
        diameter t = d \<and> frequency t = f \<and> bandwidth t = b \<and>
        aperture_efficiency t = a \<and> system_temperature t = ts) \<and>
   (\<exists>s. Source_init sn sl fd = Inr s \<and> s_name s = sn \<and> s_location s = sl \<and>
        flux_density s = fd)"
  by (simp add: Telescope_init_def Source_init_def)

subsection \<open>The altitude samples\<close>

lemma observation_times_eq:
  "map (\<lambda>k. t0 + dt * k) (arange 0 (86400 div dt)) = map (\<lambda>k. t0 + 1800 * int k) [0 ..< 48]"
  by (simp add: dt_def arange_def comp_def)

lemma altitude_loop_ok:
  assumes "\<forall>t \<in> set ts. \<not> isl (altitude_at loc t pos)"
  shows "altitude_loop altitude_at loc pos ts alts cs =
           (cs @ ts, Inr (alts @ map (\<lambda>t. projr (altitude_at loc t pos)) ts))"
  using assms
proof (induction ts arbitrary: alts cs)
  case Nil
  then show ?case by simp
next
  case (Cons t ts)
  from Cons.prems obtain a where a: "altitude_at loc t pos = Inr a"
    by (cases "altitude_at loc t pos") auto
  from Cons.prems have "\<forall>t \<in> set ts. \<not> isl (altitude_at loc t pos)"
    by simp
  from Cons.IH [OF this] a show ?case
    by simp
qed

lemma plot_altitude_error:
  assumes "Time_of (date @ '' '' @ ''00:00:00'') = Inl e"
  shows "plot_altitude Time_of altitude_at self telescope date = ([], Inl e)"
  using assms by (simp add: plot_altitude_def)

lemma plot_altitude_ok:
  assumes "Time_of (date @ '' '' @ ''00:00:00'') = Inr t0"
    and "\<forall>k < 48. \<not> isl (altitude_at (location telescope) (t0 + 1800 * int k) (s_location self))"
  shows "plot_altitude Time_of altitude_at self telescope date =
           (map (\<lambda>k. t0 + 1800 * int k) [0 ..< 48],
            Inr (map (\<lambda>k. (t0 + 1800 * int k,
                            projr (altitude_at (location telescope) (t0 + 1800 * int k)
                                     (s_location self)))) [0 ..< 48]))"
proof -
  let ?ts = "map (\<lambda>k. t0 + 1800 * int k) [0 ..< 48]"
  have "\<forall>t \<in> set ?ts. \<not> isl (altitude_at (location telescope) t (s_location self))"
    using assms(2) by auto
  from altitude_loop_ok [of ?ts altitude_at "location telescope" "s_location self" "[]" "[]"] this
  have loop: "altitude_loop altitude_at (location telescope) (s_location self) ?ts [] [] =
      (?ts, Inr (map (\<lambda>t. projr (altitude_at (location telescope) t (s_location self))) ?ts))"
    by simp
  have z: "zip ?ts (map (\<lambda>t. projr (altitude_at (location telescope) t (s_location self))) ?ts)
      = map (\<lambda>k. (t0 + 1800 * int k,
                            projr (altitude_at (location telescope) (t0 + 1800 * int k)
                                     (s_location self)))) [0 ..< 48]"
    unfolding zip_map_map map_map zip_same_conv_map by (simp add: comp_def)
  show ?thesis
    unfolding plot_altitude_def assms(1) sum.case Let_def observation_times_eq loop prod.case z ..
qed


lemma Time_iso_bad: "Time_iso (''2024-02-30'' @ '' '' @ ''00:00:00'') = Inl ValueError"
  by (simp add: Time_iso_def number_of_def digit_of_def days_in_month_def is_leap_def)

lemma days_before_2024_03: "days_before_year 2024 = 738885 \<and> days_before_month 2024 3 = 60"
  by (simp add: days_before_year_def days_before_month_def days_in_month_def is_leap_def
      upt_conv_Cons)

lemma Time_iso_good: "Time_iso (''2024-03-01'' @ '' '' @ ''00:00:00'') = Inr 63844934400"
  by (simp add: Time_iso_def number_of_def digit_of_def days_in_month_def is_leap_def
      days_before_2024_03)

lemma main_date_ValueError:
  assumes "lower doplot \<in> set [''y'', ''yes'']"
    and "Time_of (date @ '' '' @ ''00:00:00'') = Inl ValueError"
  shows "main Time_of float_of altitude_at (doplot # date # rest) =
           \<lparr> calls = [], shown = [Print ''Incorrect format for date!''], raised = None \<rparr>"
  using assms by (simp add: main_def)

lemma times_sorted: "sorted_wrt (<) (map (\<lambda>k. t0 + 1800 * int k) [0 ..< n])"
  by (simp add: sorted_wrt_iff_nth_less)

text \<open>
  Claim C2: when the date is accepted by the parser, as the time \<open>t0\<close> of
  \<^verbatim>\<open>00:00:00\<close> UTC of that day, and the transformation returns at each of the times
  asked, one call of \<open>plot_altitude\<close> produces exactly 48 samples. Their times are
  \<open>t0 + 1800 \<sqdot> k\<close> seconds for \<open>k = 0, ..., 47\<close>, strictly ascending, the first at \<open>t0\<close>
  and the last at \<open>t0 + 84600\<close> (\<^verbatim>\<open>23:30:00\<close>), all before \<open>t0 + 86400\<close>; the log of
  the calls of the transformation is this list of times, and each altitude is the
  result of the call at its time.
\<close>

theorem plot_altitude_samples:
  assumes "Time_of (date @ '' '' @ ''00:00:00'') = Inr t0"
    and "\<forall>k < 48. \<not> isl (altitude_at (location telescope) (t0 + 1800 * int k) (s_location self))"
  shows "\<exists>profile.
           plot_altitude Time_of altitude_at self telescope date = (map fst profile, Inr profile) \<and>
           length profile = 48 \<and>
           map fst profile = map (\<lambda>k. t0 + 1800 * int k) [0 ..< 48] \<and>
           sorted_wrt (<) (map fst profile) \<and>
           hd (map fst profile) = t0 \<and> last (map fst profile) = t0 + 84600 \<and>
           (\<forall>p \<in> set profile. fst p < t0 + 86400 \<and>
              altitude_at (location telescope) (fst p) (s_location self) = Inr (snd p))"
proof -
  let ?alt = "\<lambda>t. altitude_at (location telescope) t (s_location self)"
  let ?profile = "map (\<lambda>k. (t0 + 1800 * int k, projr (?alt (t0 + 1800 * int k)))) [0 ..< 48]"
  have fst: "map fst ?profile = map (\<lambda>k. t0 + 1800 * int k) [0 ..< 48]"
    by (simp add: comp_def)
  have run: "plot_altitude Time_of altitude_at self telescope date = (map fst ?profile, Inr ?profile)"
    unfolding fst using assms by (rule plot_altitude_ok)
  have len: "length ?profile = 48"
    by simp
  have srt: "sorted_wrt (<) (map fst ?profile)"
    unfolding fst by (rule times_sorted)
  have first: "hd (map fst ?profile) = t0"
    unfolding fst by (simp add: hd_map)
  have final: "last (map fst ?profile) = t0 + 84600"
    unfolding fst by (simp add: last_map)
  have each: "\<forall>p \<in> set ?profile. fst p < t0 + 86400 \<and> ?alt (fst p) = Inr (snd p)"
  proof
    fix p assume "p \<in> set ?profile"
    then obtain k where k: "k < 48" and p: "p = (t0 + 1800 * int k, projr (?alt (t0 + 1800 * int k)))"
      by auto
    from assms(2) k have "\<not> isl (?alt (t0 + 1800 * int k))"
      by simp
    then have "?alt (t0 + 1800 * int k) = Inr (projr (?alt (t0 + 1800 * int k)))"
      by simp
    with k p show "fst p < t0 + 86400 \<and> ?alt (fst p) = Inr (snd p)"
      by simp
  qed
  from run len fst srt first final each show ?thesis
    by blast
qed


theorem plot_altitude_samples_witness:
  "Time_iso (''2024-03-01'' @ '' '' @ ''00:00:00'') = Inr 63844934400 \<and>
   \<not> isl (snd (plot_altitude Time_iso (\<lambda>loc t pos. Inr 45) Src Tel ''2024-03-01'')) \<and>
   length (projr (snd (plot_altitude Time_iso (\<lambda>loc t pos. Inr 45) Src Tel ''2024-03-01''))) = 48 \<and>
   length (fst (plot_altitude Time_iso (\<lambda>loc t pos. Inr 45) Src Tel ''2024-03-01'')) = 48 \<and>
   hd (fst (plot_altitude Time_iso (\<lambda>loc t pos. Inr 45) Src Tel ''2024-03-01''))
     = 63844934400 \<and>
   last (fst (plot_altitude Time_iso (\<lambda>loc t pos. Inr 45) Src Tel ''2024-03-01''))
     = 63844934400 + 84600"
proof -
  have port: "\<forall>k < 48. \<not> isl ((\<lambda>loc t pos. Inr 45 :: py_error + real) (location Tel)
                (63844934400 + 1800 * int k) (s_location Src))"
    by simp
  from plot_altitude_samples [of Time_iso "''2024-03-01''" 63844934400 "\<lambda>loc t pos. Inr 45" Tel Src,
      OF Time_iso_good port]
  obtain profile where
    "plot_altitude Time_iso (\<lambda>loc t pos. Inr 45) Src Tel ''2024-03-01'' = (map fst profile, Inr profile)"
    "length profile = 48" "hd (map fst profile) = 63844934400"
    "last (map fst profile) = 63844934400 + 84600"
    by blast
  then show ?thesis
    using Time_iso_good by simp
qed

text \<open>
  Claim C8: when the parser refuses the date with \<^verbatim>\<open>ValueError\<close>, \<open>plot_altitude\<close>
  raises that error with an empty log of calls of the transformation and no profile,
  and \<open>main\<close> prints \<^verbatim>\<open>Incorrect format for date!\<close> and plots nothing. A date that
  the parser accepts yields a profile of 48 samples. With the parser \<open>Time_iso\<close>,
  \<^verbatim>\<open>2024-02-30\<close> is refused and \<^verbatim>\<open>2024-03-01\<close> is accepted.
\<close>

theorem invalid_date_rejected:
  "(Time_of (date @ '' '' @ ''00:00:00'') = Inl ValueError \<longrightarrow>
      plot_altitude Time_of altitude_at self telescope date = ([], Inl ValueError) \<and>
      (lower doplot \<in> set [''y'', ''yes''] \<longrightarrow>
         main Time_of float_of altitude_at (doplot # date # rest) =
           \<lparr> calls = [], shown = [Print ''Incorrect format for date!''], raised = None \<rparr>)) \<and>
   (Time_of (date @ '' '' @ ''00:00:00'') = Inr t0 \<and>
    (\<forall>k < 48. \<not> isl (altitude_at (location telescope) (t0 + 1800 * int k) (s_location self)))
      \<longrightarrow> (\<exists>profile. snd (plot_altitude Time_of altitude_at self telescope date) = Inr profile \<and>
             length profile = 48)) \<and>
   Time_iso (''2024-02-30'' @ '' '' @ ''00:00:00'') = Inl ValueError \<and>
   (\<exists>t. Time_iso (''2024-03-01'' @ '' '' @ ''00:00:00'') = Inr t)"
proof (intro conjI impI)
  assume "Time_of (date @ '' '' @ ''00:00:00'') = Inl ValueError"
  then show "plot_altitude Time_of altitude_at self telescope date = ([], Inl ValueError)"
    by (rule plot_altitude_error)
next
  assume "lower doplot \<in> set [''y'', ''yes'']"
    and "Time_of (date @ '' '' @ ''00:00:00'') = Inl ValueError"
  then show "main Time_of float_of altitude_at (doplot # date # rest) =
           \<lparr> calls = [], shown = [Print ''Incorrect format for date!''], raised = None \<rparr>"
    by (rule main_date_ValueError)
next
  assume a: "Time_of (date @ '' '' @ ''00:00:00'') = Inr t0 \<and>
    (\<forall>k < 48. \<not> isl (altitude_at (location telescope) (t0 + 1800 * int k) (s_location self)))"
  then have "Time_of (date @ '' '' @ ''00:00:00'') = Inr t0"
    and "\<forall>k < 48. \<not> isl (altitude_at (location telescope) (t0 + 1800 * int k) (s_location self))"
    by simp_all
  then have "plot_altitude Time_of altitude_at self telescope date =
           (map (\<lambda>k. t0 + 1800 * int k) [0 ..< 48],
            Inr (map (\<lambda>k. (t0 + 1800 * int k,
                            projr (altitude_at (location telescope) (t0 + 1800 * int k)
                                     (s_location self)))) [0 ..< 48]))"
    by (rule plot_altitude_ok)
  then show "\<exists>profile. snd (plot_altitude Time_of altitude_at self telescope date) = Inr profile \<and>
             length profile = 48"
    by simp
next
  show "Time_iso (''2024-02-30'' @ '' '' @ ''00:00:00'') = Inl ValueError"
    by (rule Time_iso_bad)
next
  show "\<exists>t. Time_iso (''2024-03-01'' @ '' '' @ ''00:00:00'') = Inr t"
    using Time_iso_good by blast
qed

theorem invalid_date_rejected_witness:
  "Time_iso (''2024-02-30'' @ '' '' @ ''00:00:00'') = Inl ValueError \<and>
   plot_altitude Time_iso (\<lambda>loc t pos. Inr 45) Src Tel ''2024-02-30'' = ([], Inl ValueError) \<and>
   lower ''y'' \<in> set [''y'', ''yes''] \<and>
   main Time_iso float_decimal (\<lambda>loc t pos. Inr 45) [''y'', ''2024-02-30''] =
     \<lparr> calls = [], shown = [Print ''Incorrect format for date!''], raised = None \<rparr> \<and>
   Time_iso (''2024-03-01'' @ '' '' @ ''00:00:00'') = Inr 63844934400 \<and>
   \<not> isl (snd (plot_altitude Time_iso (\<lambda>loc t pos. Inr 45) Src Tel ''2024-03-01'')) \<and>
   length (projr (snd (plot_altitude Time_iso (\<lambda>loc t pos. Inr 45) Src Tel ''2024-03-01''))) = 48"
proof -
  have port: "\<forall>k < 48. \<not> isl ((\<lambda>loc t pos. Inr 45 :: py_error + real) (location Tel)
                (63844934400 + 1800 * int k) (s_location Src))"
    by simp
  note bad = invalid_date_rejected [of Time_iso "''2024-02-30''" "\<lambda>loc t pos. Inr 45" Src Tel
      "''y''" float_decimal "[]" 0]
  note good = invalid_date_rejected [of Time_iso "''2024-03-01''" "\<lambda>loc t pos. Inr 45" Src Tel
      "''y''" float_decimal "[]" 63844934400]
  from bad Time_iso_bad lower_y
  have b: "plot_altitude Time_iso (\<lambda>loc t pos. Inr 45) Src Tel ''2024-02-30'' = ([], Inl ValueError)"
    "main Time_iso float_decimal (\<lambda>loc t pos. Inr 45) [''y'', ''2024-02-30''] =
     \<lparr> calls = [], shown = [Print ''Incorrect format for date!''], raised = None \<rparr>"
    by blast+
  from good Time_iso_good port obtain profile where
    "snd (plot_altitude Time_iso (\<lambda>loc t pos. Inr 45) Src Tel ''2024-03-01'') = Inr profile"
    "length profile = 48"
    by blast
  with b show ?thesis
    using Time_iso_bad Time_iso_good lower_y by simp
qed

end
